theory Spec2Isabelle
  imports Complex_Main "HOL-Library.Sublist"
begin

section \<open>review-gpt: request construction, validation and response handling\<close>

text \<open>
  A shallow embedding of \<^verbatim>\<open>pkg/request/request.go\<close> together with the parts of
  package \<^verbatim>\<open>globals\<close> it reads (the model registry, the range bounds and the
  validation errors), and of the request builder of the older copy of that file,
  \<^verbatim>\<open>src/unnamed/part_000\<close>.
\<close>

subsection \<open>Go's float64, as far as comparison sees it\<close>

text \<open>
  The code only compares its float64 parameters and hands them to the JSON encoder; it
  never computes with them. A float64 is therefore modelled by the value it denotes: a
  finite number, one of the two infinities, or NaN. The two zeros denote the same number
  and compare equal, as in Go.
\<close>

datatype float64 = Finite real | PosInf | NegInf | NaN

text \<open>Go's \<^verbatim>\<open><\<close> on float64 (IEEE 754): every comparison with NaN is false.\<close>

fun flt :: "float64 \<Rightarrow> float64 \<Rightarrow> bool" where
  "flt NaN y = False"
| "flt x NaN = False"
| "flt x NegInf = False"
| "flt PosInf y = False"
| "flt NegInf y = True"
| "flt (Finite a) PosInf = True"
| "flt (Finite a) (Finite b) = (a < b)"

text \<open>Go's \<^verbatim>\<open>>\<close> on float64.\<close>

definition fgt :: "float64 \<Rightarrow> float64 \<Rightarrow> bool" where
  "fgt x y = flt y x"

subsection \<open>Package globals\<close>

record Model =
  Chat :: bool
  Name :: string

definition Turbo :: Model where "Turbo = \<lparr>Chat = True, Name = ''gpt-3.5-turbo''\<rparr>"
definition Davinci :: Model where "Davinci = \<lparr>Chat = False, Name = ''text-davinci-003''\<rparr>"
definition Curie :: Model where "Curie = \<lparr>Chat = False, Name = ''text-curie-001''\<rparr>"
definition Babbage :: Model where "Babbage = \<lparr>Chat = False, Name = ''text-babbage-001''\<rparr>"
definition Ada :: Model where "Ada = \<lparr>Chat = False, Name = ''text-ada-001''\<rparr>"
definition GPT4 :: Model where "GPT4 = \<lparr>Chat = True, Name = ''gpt-4''\<rparr>"

text \<open>The registry \<^verbatim>\<open>map[string]Model\<close>: a lookup that can miss.\<close>

definition Models :: "string \<rightharpoonup> Model" where
  "Models = map_of [(''turbo'', Turbo), (''davinci'', Davinci), (''curie'', Curie),
                    (''babbage'', Babbage), (''ada'', Ada), (''gpt4'', GPT4)]"

definition TempRangeMin :: float64 where "TempRangeMin = Finite 0"
definition TempRangeMax :: float64 where "TempRangeMax = Finite 1"
definition TopPMin :: float64 where "TopPMin = Finite 0"
definition TopPMax :: float64 where "TopPMax = Finite 1"
definition PresenceMin :: float64 where "PresenceMin = Finite (- 2)"
definition PresenceMax :: float64 where "PresenceMax = Finite 2"
definition FrequenceMin :: float64 where "FrequenceMin = Finite (- 2)"
definition FrequenceMax :: float64 where "FrequenceMax = Finite 2"
definition BestOfMin :: int where "BestOfMin = 1"
definition BestOfMax :: int where "BestOfMax = 20"

text \<open>
  The error values. The first seven are the package-level variables of \<^verbatim>\<open>globals\<close>;
  \<open>UnsupportedValueError\<close> is what \<^verbatim>\<open>json.Marshal\<close> returns for a float it cannot
  encode (it carries the float as printed), \<open>TransportError\<close> is whatever
  \<^verbatim>\<open>client.Do\<close> returned, and \<open>ErrorsNew\<close> is \<^verbatim>\<open>errors.New(msg)\<close>.
\<close>

datatype error =
    ErrWrongModel
  | ErrWrongTempRange
  | ErrWrongToppRange
  | ErrWrongPresenceRange
  | ErrWrongFrequenceRange
  | ErrWrongBestOfRange
  | ErrWrongKey
  | UnsupportedValueError string
  | TransportError string
  | ErrorsNew string

text \<open>The \<^verbatim>\<open>Error()\<close> text of each value.\<close>

fun Error :: "error \<Rightarrow> string" where
  "Error ErrWrongModel = ''The model you entered was not correct''"
| "Error ErrWrongTempRange =
     ''The temperature is not in the correct range (0 <= temp <= 1)''"
| "Error ErrWrongToppRange =
     ''The top_p is not in the correct range (0 <= top_p <= 1)''"
| "Error ErrWrongPresenceRange =
     ''The presence penalty is not in the correct range (-2 <= presence <= 2)''"
| "Error ErrWrongFrequenceRange =
     ''The presence penalty is not in the correct range (-2 <= frequence <= 2)''"
| "Error ErrWrongBestOfRange =
     ''The best of variable is not in the correct range (1 <= best of  <= 20)''"
| "Error ErrWrongKey =
     ''The API Kry you entered is either wrong or hasn't been set up with a paid account of GPT. You must sign up for a paid account at Openai GPT.''"
| "Error (UnsupportedValueError s) = ''json: unsupported value: '' @ s"
| "Error (TransportError s) = s"
| "Error (ErrorsNew s) = s"

subsection \<open>The structs of package request\<close>

text \<open>
  Go's \<^verbatim>\<open>int\<close> fields are integers here: the code compares them with the bounds and
  encodes them, and never computes with them.
\<close>

record Message =
  Role :: string
  Content :: string

record Body =
  Model :: string
  Prompt :: string
  Temperature :: float64
  Max_Tokens :: int
  Top_P :: float64
  Frequence_Pen :: float64
  Presence_Pen :: float64
  Best_Of :: int

text \<open>
  \<^verbatim>\<open>ChatBody\<close> has the fields of \<^verbatim>\<open>Body\<close> without \<^verbatim>\<open>Prompt\<close> and
  \<^verbatim>\<open>Best_Of\<close>, and with \<^verbatim>\<open>Messages\<close>; its selectors carry the prefix
  \<open>Chat_\<close> where the name is taken by \<open>Body\<close>. \<open>Messages\<close> is a slice: \<open>None\<close> is
  the nil slice that a struct literal without the field leaves.
\<close>

record ChatBody =
  Chat_Model :: string
  Messages :: "Message list option"
  Chat_Temperature :: float64
  Chat_Max_Tokens :: int
  Chat_Top_P :: float64
  Chat_Frequence_Pen :: float64
  Chat_Presence_Pen :: float64

record APIText =
  Text :: string
  Message :: Message
  Index :: int

record APIUsage =
  Prompt_Tokens :: int
  Completion_Tokens :: int
  Total_Tokens :: int

text \<open>\<^verbatim>\<open>ApiErr\<close>; its \<^verbatim>\<open>Message\<close> field is \<open>ErrMessage\<close> here.\<close>

record ApiErr =
  ErrMessage :: string
  Type :: string
  Param :: "string option"
  Code :: string

record APIResponse =
  Err :: "ApiErr option"
  ID :: string
  Object :: string
  Created :: int
  Choices :: "APIText list"
  Usage :: APIUsage

subsection \<open>CheckFormat\<close>

definition CheckFormat :: "Body \<Rightarrow> bool \<Rightarrow> error option" where
  "CheckFormat body model =
     (if \<not> model then Some ErrWrongModel
      else if flt (Temperature body) TempRangeMin \<or> fgt (Temperature body) TempRangeMax
        then Some ErrWrongTempRange
      else if flt (Top_P body) TopPMin \<or> fgt (Top_P body) TopPMax
        then Some ErrWrongToppRange
      else if flt (Presence_Pen body) PresenceMin \<or> fgt (Presence_Pen body) PresenceMax
        then Some ErrWrongPresenceRange
      else if flt (Frequence_Pen body) FrequenceMin \<or> fgt (Frequence_Pen body) FrequenceMax
        then Some ErrWrongFrequenceRange
      else if Best_Of body < BestOfMin \<or> Best_Of body > BestOfMax
        then Some ErrWrongBestOfRange
      else None)"

subsection \<open>The prompt constants\<close>

definition API_BASE_URL :: string where
  "API_BASE_URL = ''https://api.openai.com/v1/''"

definition PROMPT_PREFIX :: string where
  "PROMPT_PREFIX = ''From a code reviewer's perspective, Review the the git diff below and tell me what I can improve on in the code (the '+' in the git diff is an added line, the '-' is a removed line). Only review the changes that code that has been added i.e. the code denoted by the '+' icon all other codes i.e. codes denoted by '-' and with no indicator, are just for context dont comment on them. Do not suggest changes already made in the git diff. Do not explain the git diff. Only say what could be improved. Focus on what needs to be improved rather than what is already properly implemented. Also go into more detail, give me code snippets of how to enhance the code giving me code suggestions too. Give the response in Markdown''"

definition CHAT_PROMPT_INSTRUCTIONS :: string where
  "CHAT_PROMPT_INSTRUCTIONS = ''You are a very intelligentX and professional senior engineer with over 10 years of experience. You have a deep understanding of software engineering principles and best practices. You are also proficient in a variety of programming languages and technologies. You are passionate about writing high-quality code and ensuring that our code is well-reviewed. You review only the added changed code in the while code review. You are also committed to continuous learning and improvement. When reviewing code, You  typically look for the following: Correctness: Does the code work as intended? Readability: Is the code easy to read and understand? Maintainability: Is the code easy to maintain and extend? Performance: Is the code efficient and performant? Security: Is the code secure and free from vulnerabilities? You provide code reviewers  with specific feedback and suggestions for improvement the cod You will take in a git diff, and review it for the user. You will provide user with detailed code review feedback, including the following: File name under 'File Name' section, Line number under 'Line Number' section, Comment under 'Comment' section, Sugegested Refactored code snippet for code that needs refactoring under 'Suggested Change' section. Please also try to provide the user with specific suggestions for improvement, such as: How to make the code more readable, How to improve the performance of the code, How to make the code more secure, How to improve the overall design of the code. The user appreciates your feedback and the user will use it to improve their code.''"

subsection \<open>The wire encoding\<close>

text \<open>
  \<^verbatim>\<open>encoding/json\<close> is modelled at the level of JSON values: an object is the list
  of its members in the order the encoder writes them (the order of the struct's fields,
  under the names of their \<^verbatim>\<open>json\<close> tags), and \<open>JString s\<close> is the JSON string
  that encodes the Go string \<open>s\<close>. The text layer (escaping, number formatting) is not
  modelled.
\<close>

datatype json =
    JNull
  | JString string
  | JNumber real
  | JArray "json list"
  | JObject "(string \<times> json) list"

text \<open>
  The encoder refuses a float that is infinite or NaN with an
  \<^verbatim>\<open>UnsupportedValueError\<close> carrying the float as \<^verbatim>\<open>strconv.FormatFloat\<close>
  prints it.
\<close>

fun marshal_float64 :: "float64 \<Rightarrow> error + json" where
  "marshal_float64 (Finite r) = Inr (JNumber r)"
| "marshal_float64 PosInf = Inl (UnsupportedValueError ''+Inf'')"
| "marshal_float64 NegInf = Inl (UnsupportedValueError ''-Inf'')"
| "marshal_float64 NaN = Inl (UnsupportedValueError ''NaN'')"

text \<open>Sequencing of fallible steps: the first error ends the encoding.\<close>

fun and_then :: "error + 'a \<Rightarrow> ('a \<Rightarrow> error + 'b) \<Rightarrow> error + 'b" where
  "and_then (Inl e) f = Inl e"
| "and_then (Inr x) f = f x"

definition marshal_Message :: "Message \<Rightarrow> json" where
  "marshal_Message m = JObject [(''role'', JString (Role m)), (''content'', JString (Content m))]"

text \<open>A nil slice is encoded as \<^verbatim>\<open>null\<close>, any other slice as an array.\<close>

fun marshal_Messages :: "Message list option \<Rightarrow> json" where
  "marshal_Messages None = JNull"
| "marshal_Messages (Some ms) = JArray (map marshal_Message ms)"

definition marshal_Body :: "Body \<Rightarrow> error + json" where
  "marshal_Body b =
     and_then (marshal_float64 (Temperature b)) (\<lambda>temperature.
     and_then (marshal_float64 (Top_P b)) (\<lambda>top_p.
     and_then (marshal_float64 (Frequence_Pen b)) (\<lambda>frequency_penalty.
     and_then (marshal_float64 (Presence_Pen b)) (\<lambda>presence_penalty.
       Inr (JObject
         [(''model'', JString (Model b)),
          (''prompt'', JString (Prompt b)),
          (''temperature'', temperature),
          (''max_tokens'', JNumber (of_int (Max_Tokens b))),
          (''top_p'', top_p),
          (''frequency_penalty'', frequency_penalty),
          (''presence_penalty'', presence_penalty),
          (''best_of'', JNumber (of_int (Best_Of b)))])))))"

definition marshal_ChatBody :: "ChatBody \<Rightarrow> error + json" where
  "marshal_ChatBody c =
     and_then (marshal_float64 (Chat_Temperature c)) (\<lambda>temperature.
     and_then (marshal_float64 (Chat_Top_P c)) (\<lambda>top_p.
     and_then (marshal_float64 (Chat_Frequence_Pen c)) (\<lambda>frequency_penalty.
     and_then (marshal_float64 (Chat_Presence_Pen c)) (\<lambda>presence_penalty.
       Inr (JObject
         [(''model'', JString (Chat_Model c)),
          (''messages'', marshal_Messages (Messages c)),
          (''temperature'', temperature),
          (''max_tokens'', JNumber (of_int (Chat_Max_Tokens c))),
          (''top_p'', top_p),
          (''frequency_penalty'', frequency_penalty),
          (''presence_penalty'', presence_penalty)])))))"

text \<open>
  Reading a JSON value: the member names of an object, and a member by name (the
  decoder lets the last of several members with one name win).
\<close>

fun keys :: "json \<Rightarrow> string list" where
  "keys (JObject kvs) = map fst kvs"
| "keys j = []"

fun member :: "json \<Rightarrow> string \<Rightarrow> json option" where
  "member (JObject kvs) k = map_of (rev kvs) k"
| "member j k = None"

text \<open>
  The decoder on the \<^verbatim>\<open>messages\<close> member of a chat request, for the round trip:
  a string member fills its field, a missing or \<^verbatim>\<open>null\<close> member leaves the zero
  value, anything else is a type error (\<open>None\<close>).
\<close>

fun unmarshal_string :: "json option \<Rightarrow> string option" where
  "unmarshal_string None = Some []"
| "unmarshal_string (Some JNull) = Some []"
| "unmarshal_string (Some (JString s)) = Some s"
| "unmarshal_string (Some j) = None"

fun unmarshal_Message :: "json \<Rightarrow> Message option" where
  "unmarshal_Message JNull = Some \<lparr>Role = [], Content = []\<rparr>"
| "unmarshal_Message (JObject kvs) =
     (case unmarshal_string (member (JObject kvs) ''role'') of
        None \<Rightarrow> None
      | Some r \<Rightarrow>
         (case unmarshal_string (member (JObject kvs) ''content'') of
            None \<Rightarrow> None
          | Some c \<Rightarrow> Some \<lparr>Role = r, Content = c\<rparr>))"
| "unmarshal_Message j = None"

fun unmarshal_Messages :: "json \<Rightarrow> Message list option option" where
  "unmarshal_Messages (JObject kvs) =
     (case member (JObject kvs) ''messages'' of
        None \<Rightarrow> Some None
      | Some JNull \<Rightarrow> Some None
      | Some (JArray xs) \<Rightarrow> map_option Some (those (map unmarshal_Message xs))
      | Some j \<Rightarrow> None)"
| "unmarshal_Messages j = None"

subsection \<open>configureParams and createRequestBody\<close>

definition configureParams ::
  "Model \<Rightarrow> int \<Rightarrow> float64 \<Rightarrow> float64 \<Rightarrow> float64 \<Rightarrow> float64 \<Rightarrow> int \<Rightarrow> Body \<times> ChatBody" where
  "configureParams model maxtokens temperature top_p frequence presence bestof =
     (let params = \<lparr>Model = Name model, Prompt = [], Temperature = temperature,
                     Max_Tokens = maxtokens, Top_P = top_p, Frequence_Pen = frequence,
                     Presence_Pen = presence, Best_Of = bestof\<rparr>;
          chatParams = \<lparr>Chat_Model = Name model, Messages = None,
                         Chat_Temperature = temperature, Chat_Max_Tokens = maxtokens,
                         Chat_Top_P = top_p, Chat_Frequence_Pen = frequence,
                         Chat_Presence_Pen = presence\<rparr>
      in (params, chatParams))"

text \<open>
  \<^verbatim>\<open>fmt.Sprintf("%s\n%s\n", PROMPT_PREFIX, gitDiff)\<close>: the two strings as they are,
  each followed by a line feed.
\<close>

definition createRequestBody :: "Model \<Rightarrow> Body \<Rightarrow> ChatBody \<Rightarrow> string \<Rightarrow> error + json" where
  "createRequestBody model params chatParams gitDiff =
     (let prompt = PROMPT_PREFIX @ [CHR 0x0A] @ gitDiff @ [CHR 0x0A] in
      if Chat model then
        (let sysMessage = \<lparr>Role = ''system'', Content = CHAT_PROMPT_INSTRUCTIONS\<rparr>;
             usrMessage = \<lparr>Role = ''user'', Content = gitDiff\<rparr>
         in marshal_ChatBody (chatParams\<lparr>Messages := Some [sysMessage, usrMessage]\<rparr>))
      else marshal_Body (params\<lparr>Prompt := prompt\<rparr>))"

subsection \<open>RequestImprovements\<close>

text \<open>
  The HTTP request handed to \<^verbatim>\<open>client.Do\<close>: method, URL, the headers in the order
  they are set, and the body.
\<close>

record http_request =
  Method :: string
  URL :: string
  Header :: "(string \<times> string) list"
  ReqBody :: json

text \<open>
  What the function cannot decide by itself: \<open>client_Do\<close> is the round trip
  (\<open>Inl\<close> a transport failure, \<open>Inr\<close> the bytes that \<^verbatim>\<open>io.ReadAll\<close> got from the
  response body; the code drops the error of the read), and \<open>json_Unmarshal\<close> is the
  decoding of those bytes into an \<^verbatim>\<open>APIResponse\<close> (\<open>Inl\<close> the decoder's message).
  The status code of the response is not looked at.
\<close>

record world =
  client_Do :: "http_request \<Rightarrow> string + string"
  json_Unmarshal :: "string \<Rightarrow> string + APIResponse"

text \<open>
  A call either returns its pair of results, or panics:
  \<^verbatim>\<open>globals.Log.Panic().Msg(s)\<close> writes the log entry and then calls \<^verbatim>\<open>panic(s)\<close>.
\<close>

datatype outcome = Returned "string list" "error option" | Panicked string

text \<open>The loop over the choices, \<open>answers\<close> being the slice it appends to.\<close>

fun append_choices :: "bool \<Rightarrow> APIText list \<Rightarrow> string list \<Rightarrow> string list" where
  "append_choices chat [] answers = answers"
| "append_choices chat (c # choices) answers =
     (if chat then append_choices chat choices (answers @ [Content (Message c)])
      else if length (Text c) \<noteq> 0 then append_choices chat choices (answers @ [Text c])
      else append_choices chat choices answers)"

text \<open>
  \<^verbatim>\<open>http.NewRequest("POST", url, reqBody)\<close> with the two header assignments. The
  method and both URLs are constants that \<^verbatim>\<open>NewRequest\<close> accepts, so its error branch
  is never taken.
\<close>

definition new_request :: "string \<Rightarrow> Model \<Rightarrow> json \<Rightarrow> http_request" where
  "new_request key model reqBody =
     (let endUrl = (if Chat model then ''chat/completions'' else ''completions'');
          url = API_BASE_URL @ endUrl
      in \<lparr>Method = ''POST'', URL = url,
          Header = [(''Authorization'', ''Bearer '' @ key),
                    (''Content-Type'', ''application/json'')],
          ReqBody = reqBody\<rparr>)"

text \<open>
  The result is the outcome together with the requests handed to \<^verbatim>\<open>client.Do\<close>, in
  order: the network traffic of the call.
\<close>

definition RequestImprovements ::
  "world \<Rightarrow> string \<Rightarrow> string \<Rightarrow> string \<Rightarrow> int \<Rightarrow> float64 \<Rightarrow> float64 \<Rightarrow> float64 \<Rightarrow> float64 \<Rightarrow> int
     \<Rightarrow> outcome \<times> http_request list" where
  "RequestImprovements w key gitDiff rawModel maxtokens temperature top_p frequence presence bestof =
     (let answers = [];
          model = (case Models rawModel of Some m \<Rightarrow> m | None \<Rightarrow> \<lparr>Chat = False, Name = []\<rparr>);
          hasModel = (Models rawModel \<noteq> None);
          (params, chatParams) =
             configureParams model maxtokens temperature top_p frequence presence bestof
      in case CheckFormat params hasModel of
           Some err \<Rightarrow> (Returned answers (Some err), [])
         | None \<Rightarrow>
            (case createRequestBody model params chatParams gitDiff of
               Inl err \<Rightarrow> (Returned answers (Some err), [])
             | Inr reqBody \<Rightarrow>
                (let req = new_request key model reqBody in
                 case client_Do w req of
                   Inl err \<Rightarrow> (Returned answers (Some (TransportError err)), [req])
                 | Inr body \<Rightarrow>
                    (case json_Unmarshal w body of
                       Inl err \<Rightarrow> (Panicked err, [req])
                     | Inr apiReq \<Rightarrow>
                        (case Err apiReq of
                           Some err \<Rightarrow> (Returned answers (Some (ErrorsNew (ErrMessage err))), [req])
                         | None \<Rightarrow>
                            (Returned (append_choices (Chat model) (Choices apiReq) answers) None,
                             [req]))))))"

subsection \<open>The specification's vocabulary\<close>

text \<open>
  "Order-sensitive checks, first failure wins": a list of checks, each a flag (violated
  or not) with its error, read from the front.
\<close>

fun first_failure :: "(bool \<times> error) list \<Rightarrow> error option" where
  "first_failure [] = None"
| "first_failure ((violated, err) # checks) =
     (if violated then Some err else first_failure checks)"

text \<open>A value compares below the minimum or above the maximum.\<close>

definition out_of_bounds :: "float64 \<Rightarrow> float64 \<Rightarrow> float64 \<Rightarrow> bool" where
  "out_of_bounds lo hi x = (flt x lo \<or> fgt x hi)"

text \<open>"\<open>x\<close> in \<open>[lo, hi]\<close> inclusive": \<open>x\<close> is a number between the two bounds.\<close>

fun in_interval :: "real \<Rightarrow> real \<Rightarrow> float64 \<Rightarrow> bool" where
  "in_interval lo hi (Finite x) = (lo \<le> x \<and> x \<le> hi)"
| "in_interval lo hi x = False"

text \<open>
  The validator as the specification words it: the model must be found, then each
  parameter must be in its interval, in the order temperature, topP, presencePenalty,
  frequencyPenalty, bestOf; the first failure wins.
\<close>

definition validate :: "Body \<Rightarrow> bool \<Rightarrow> error option" where
  "validate params modelFound = first_failure
     [(\<not> modelFound, ErrWrongModel),
      (\<not> in_interval 0 1 (Temperature params), ErrWrongTempRange),
      (\<not> in_interval 0 1 (Top_P params), ErrWrongToppRange),
      (\<not> in_interval (- 2) 2 (Presence_Pen params), ErrWrongPresenceRange),
      (\<not> in_interval (- 2) 2 (Frequence_Pen params), ErrWrongFrequenceRange),
      (Best_Of params < 1 \<or> 20 < Best_Of params, ErrWrongBestOfRange)]"

text \<open>The call handed an error back to its caller.\<close>

fun returns_error :: "outcome \<Rightarrow> bool" where
  "returns_error (Returned answers (Some err)) = True"
| "returns_error r = False"

text \<open>The member \<^verbatim>\<open>prompt\<close> of a request body, when there is a body.\<close>

fun sent_prompt :: "error + json \<Rightarrow> json option" where
  "sent_prompt (Inr j) = member j ''prompt''"
| "sent_prompt (Inl e) = None"

text \<open>The roles of a decoded message list, in order.\<close>

fun roles :: "Message list option option \<Rightarrow> string list option" where
  "roles (Some (Some ms)) = Some (map Role ms)"
| "roles r = None"

subsection \<open>The older copy of the request builder\<close>

text \<open>
  \<^verbatim>\<open>src/unnamed/part_000\<close> is an older copy of \<^verbatim>\<open>request.go\<close>. Its
  \<^verbatim>\<open>CheckFormat\<close>, its handling of the response and its loop over the choices are
  those above; it differs in how it builds the request body, inside
  \<^verbatim>\<open>RequestImprovements\<close>: other instruction texts, and the prompt formatted with
  \<^verbatim>\<open>%#v\<close>.
\<close>

definition promptPrefix :: string where
  "promptPrefix = ''explain the git diff below, and from a code reviewer's perspective, tell me what I can improve on in the code (the '+' in the git diff is an added line, the '-' is a removed line). do not suggest changes already made in the git diff. do not explain the git diff. only say what could be improved. also go into more detail, give me code snippets of how to enhance it  give me refactored code too please.''"

definition chatPromptInstructions :: string where
  "chatPromptInstructions =
      ''You are a very intelligent and professional senior engineer with over 10 years of experience. You have a deep understanding of software engineering principles and best practices. You are also proficient in a variety of programming languages and technologies. You are passionate about writing high-quality code and ensuring that our code is well-reviewed. You are also committed to continuous learning and improvement. When reviewing code, You  typically look for the following: Correctness: Does the code work as intended? Readability: Is the code easy to read and understand? Maintainability: Is the code easy to maintain and extend? Performance: Is the code efficient and performant? Security: Is the code secure and free from vulnerabilities? You provide code reviewers  with specific feedback and suggestions for improvement the code. You will take in a git diff, and review it for the user. You will provide user with detailed code review feedback, including the following:'' @ [CHR 0x0A] @
      [] @ [CHR 0x0A] @
      ''File name'' @ [CHR 0x0A] @
      ''Line number'' @ [CHR 0x0A] @
      ''Comment'' @ [CHR 0x0A] @
      ''Refactored code snippet'' @ [CHR 0x0A] @
      [] @ [CHR 0x0A] @
      ''Please also try to provide the user with specific suggestions for improvement, such as:'' @ [CHR 0x0A] @
      [] @ [CHR 0x0A] @
      ''How to make the code more readable'' @ [CHR 0x0A] @
      ''How to improve the performance of the code'' @ [CHR 0x0A] @
      ''How to make the code more secure'' @ [CHR 0x0A] @
      ''How to improve the overall design of the code'' @ [CHR 0x0A] @
      [] @ [CHR 0x0A] @
      ''The user appreciates your feedback and the user will use it to improve their code.''"

text \<open>
  \<^verbatim>\<open>%#v\<close> prints a string as \<^verbatim>\<open>strconv.Quote\<close> does: between double quotes, with a
  backslash before a double quote and a backslash, the usual escapes for the control
  characters that have one, \<^verbatim>\<open>\x\<close> and two hexadecimal digits for the others and
  for DEL, and every printable character as it is. For a byte above 0x7F the output
  depends on the UTF-8 sequence the byte stands in and on Unicode's table of printable
  characters; the model gives no value (\<open>None\<close>) for a string with such a byte.
\<close>

definition hex_digit :: "nat \<Rightarrow> char" where
  "hex_digit n = ''0123456789abcdef'' ! (n mod 16)"

definition quote_byte :: "char \<Rightarrow> string option" where
  "quote_byte c =
     (let n = (of_char c :: nat) in
      if c = CHR 0x22 \<or> c = CHR 0x5C then Some [CHR 0x5C, c]
      else if 0x20 \<le> n \<and> n < 0x7F then Some [c]
      else if n = 0x07 then Some [CHR 0x5C, CHR ''a'']
      else if n = 0x08 then Some [CHR 0x5C, CHR ''b'']
      else if n = 0x0C then Some [CHR 0x5C, CHR ''f'']
      else if n = 0x0A then Some [CHR 0x5C, CHR ''n'']
      else if n = 0x0D then Some [CHR 0x5C, CHR ''r'']
      else if n = 0x09 then Some [CHR 0x5C, CHR ''t'']
      else if n = 0x0B then Some [CHR 0x5C, CHR ''v'']
      else if n < 0x20 \<or> n = 0x7F
        then Some [CHR 0x5C, CHR ''x'', hex_digit (n div 16), hex_digit (n mod 16)]
      else None)"

fun quote_bytes :: "string \<Rightarrow> string option" where
  "quote_bytes [] = Some []"
| "quote_bytes (c # s) =
     (case quote_byte c of
        None \<Rightarrow> None
      | Some e \<Rightarrow> (case quote_bytes s of None \<Rightarrow> None | Some r \<Rightarrow> Some (e @ r)))"

definition Quote :: "string \<Rightarrow> string option" where
  "Quote s = (case quote_bytes s of None \<Rightarrow> None | Some r \<Rightarrow> Some ([CHR 0x22] @ r @ [CHR 0x22]))"

text \<open>
  The request body as \<^verbatim>\<open>RequestImprovements\<close> of the older copy builds it (from the
  assignment of the model name to the call of \<^verbatim>\<open>json.Marshal\<close>), \<open>Inl\<close> being the
  encoder's error that the function returns. The prompt is
  \<^verbatim>\<open>fmt.Sprintf("%#v\n%#v\n", promptPrefix, gitDiff)\<close>; only the legacy branch uses it.
\<close>

definition requestBody_part_000 ::
  "Model \<Rightarrow> Body \<Rightarrow> ChatBody \<Rightarrow> string \<Rightarrow> (error + json) option" where
  "requestBody_part_000 model params0 chatParams0 gitDiff =
     (let params = params0\<lparr>Model := Name model\<rparr>;
          chatParams = chatParams0\<lparr>Chat_Model := Name model\<rparr>;
          prompt = (case Quote promptPrefix of
                      None \<Rightarrow> None
                    | Some p \<Rightarrow>
                       (case Quote gitDiff of
                          None \<Rightarrow> None
                        | Some d \<Rightarrow> Some (p @ [CHR 0x0A] @ d @ [CHR 0x0A])))
      in if Chat model then
           (let sysMessage = \<lparr>Role = ''system'', Content = chatPromptInstructions\<rparr>;
                usrMessage = \<lparr>Role = ''user'', Content = gitDiff\<rparr>
            in Some (marshal_ChatBody (chatParams\<lparr>Messages := Some [sysMessage, usrMessage]\<rparr>)))
         else
           (case prompt of
              None \<Rightarrow> None
            | Some p \<Rightarrow> Some (marshal_Body (params\<lparr>Prompt := p\<rparr>))))"

text \<open>The prompt member of such a body.\<close>

fun sent_prompt_part_000 :: "(error + json) option \<Rightarrow> json option" where
  "sent_prompt_part_000 (Some r) = sent_prompt r"
| "sent_prompt_part_000 None = None"

subsection \<open>Stubbed transports and canned responses\<close>

text \<open>
  A transport that answers every request with one fixed result, a decoder that gives one
  fixed result for every body, and the responses of the specification's examples.
\<close>

definition stub_Do :: "string + string \<Rightarrow> http_request \<Rightarrow> string + string" where
  "stub_Do reply req = reply"

definition stub_Unmarshal :: "string + APIResponse \<Rightarrow> string \<Rightarrow> string + APIResponse" where
  "stub_Unmarshal result body = result"

definition stub_world :: "string + string \<Rightarrow> string + APIResponse \<Rightarrow> world" where
  "stub_world reply result = \<lparr>client_Do = stub_Do reply, json_Unmarshal = stub_Unmarshal result\<rparr>"

definition text_choice :: "string \<Rightarrow> int \<Rightarrow> APIText" where
  "text_choice t i = \<lparr>Text = t, Message = \<lparr>Role = [], Content = []\<rparr>, Index = i\<rparr>"

definition chat_choice :: "string \<Rightarrow> int \<Rightarrow> APIText" where
  "chat_choice c i = \<lparr>Text = [], Message = \<lparr>Role = ''assistant'', Content = c\<rparr>, Index = i\<rparr>"

definition response :: "ApiErr option \<Rightarrow> APIText list \<Rightarrow> APIResponse" where
  "response e cs =
     \<lparr>Err = e, ID = [], Object = [], Created = 0, Choices = cs,
      Usage = \<lparr>Prompt_Tokens = 0, Completion_Tokens = 0, Total_Tokens = 0\<rparr>\<rparr>"

definition legacy_response :: APIResponse where
  "legacy_response =
     response None [text_choice [] 0, text_choice ''improve X'' 1, text_choice [] 2]"

definition chat_response :: APIResponse where
  "chat_response = response None [chat_choice ''looks fine'' 0]"

definition invalid_key :: ApiErr where
  "invalid_key = \<lparr>ErrMessage = ''invalid api key'', Type = ''invalid_request_error'',
                   Param = None, Code = ''invalid_api_key''\<rparr>"

definition error_response :: APIResponse where
  "error_response = response (Some invalid_key) [text_choice ''improve X'' 0]"

section \<open>Proofs\<close>

subsection \<open>Shared facts\<close>

lemmas bounds_defs =
  TempRangeMin_def TempRangeMax_def TopPMin_def TopPMax_def PresenceMin_def PresenceMax_def
  FrequenceMin_def FrequenceMax_def BestOfMin_def BestOfMax_def

lemma out_of_bounds_Finite:
  "out_of_bounds (Finite lo) (Finite hi) x = (x \<noteq> NaN \<and> \<not> in_interval lo hi x)"
  by (cases x) (auto simp: out_of_bounds_def fgt_def)

lemma CheckFormat_ignores_model_name:
  "CheckFormat (fst (configureParams m maxtokens temperature top_p frequence presence bestof)) h =
   CheckFormat (fst (configureParams m' maxtokens temperature top_p frequence presence bestof)) h"
  by (simp add: CheckFormat_def configureParams_def Let_def)

lemma CheckFormat_range:
  "CheckFormat body model \<in> {None, Some ErrWrongModel, Some ErrWrongTempRange, Some ErrWrongToppRange,
     Some ErrWrongPresenceRange, Some ErrWrongFrequenceRange, Some ErrWrongBestOfRange}"
  by (simp add: CheckFormat_def)

lemma CheckFormat_without_NaN:
  assumes "Temperature body \<noteq> NaN" "Top_P body \<noteq> NaN"
    and "Presence_Pen body \<noteq> NaN" "Frequence_Pen body \<noteq> NaN"
  shows "CheckFormat body True = None \<longleftrightarrow>
           in_interval 0 1 (Temperature body) \<and> in_interval 0 1 (Top_P body) \<and>
           in_interval (- 2) 2 (Presence_Pen body) \<and> in_interval (- 2) 2 (Frequence_Pen body) \<and>
           1 \<le> Best_Of body \<and> Best_Of body \<le> 20"
  using assms
  by (auto simp: CheckFormat_def bounds_defs out_of_bounds_Finite [unfolded out_of_bounds_def])

lemma append_choices_eq:
  "append_choices chat choices answers =
     answers @ (if chat then map (\<lambda>c. Content (Message c)) choices
                else filter (\<lambda>t. length t \<noteq> 0) (map Text choices))"
  by (induction choices arbitrary: answers) auto

lemma RequestImprovements_rejected:
  assumes "CheckFormat (fst (configureParams model maxtokens temperature top_p frequence presence bestof))
             (Models rawModel \<noteq> None) = Some err"
  shows "RequestImprovements w key gitDiff rawModel maxtokens temperature top_p frequence presence bestof =
           (Returned [] (Some err), [])"
proof -
  let ?m = "case Models rawModel of Some m \<Rightarrow> m | None \<Rightarrow> \<lparr>Chat = False, Name = []\<rparr>"
  have "CheckFormat (fst (configureParams ?m maxtokens temperature top_p frequence presence bestof))
          (Models rawModel \<noteq> None) = Some err"
    using assms CheckFormat_ignores_model_name [of ?m _ _ _ _ _ _ _ model] by simp
  then show ?thesis
    by (simp add: RequestImprovements_def Let_def case_prod_beta)
qed

lemma RequestImprovements_unencodable:
  assumes "Models rawModel = Some model"
    and "CheckFormat (fst (configureParams model maxtokens temperature top_p frequence presence bestof)) True = None"
    and "createRequestBody model
           (fst (configureParams model maxtokens temperature top_p frequence presence bestof))
           (snd (configureParams model maxtokens temperature top_p frequence presence bestof)) gitDiff = Inl err"
  shows "RequestImprovements w key gitDiff rawModel maxtokens temperature top_p frequence presence bestof =
           (Returned [] (Some err), [])"
  using assms by (simp add: RequestImprovements_def Let_def case_prod_beta)

lemma RequestImprovements_round_trip:
  assumes "Models rawModel = Some model"
    and "CheckFormat (fst (configureParams model maxtokens temperature top_p frequence presence bestof)) True = None"
    and "createRequestBody model
           (fst (configureParams model maxtokens temperature top_p frequence presence bestof))
           (snd (configureParams model maxtokens temperature top_p frequence presence bestof)) gitDiff = Inr reqBody"
  shows "RequestImprovements w key gitDiff rawModel maxtokens temperature top_p frequence presence bestof =
     (case client_Do w (new_request key model reqBody) of
        Inl err \<Rightarrow> (Returned [] (Some (TransportError err)), [new_request key model reqBody])
      | Inr body \<Rightarrow>
        (case json_Unmarshal w body of
           Inl err \<Rightarrow> (Panicked err, [new_request key model reqBody])
         | Inr apiReq \<Rightarrow>
            (case Err apiReq of
               Some err \<Rightarrow> (Returned [] (Some (ErrorsNew (ErrMessage err))), [new_request key model reqBody])
             | None \<Rightarrow> (Returned (append_choices (Chat model) (Choices apiReq) []) None,
                         [new_request key model reqBody]))))"
  using assms by (simp add: RequestImprovements_def Let_def case_prod_beta)

lemma createRequestBody_chat:
  assumes "Chat model"
  shows "createRequestBody model params
           (snd (configureParams model maxtokens (Finite t) (Finite p) (Finite f) (Finite pr) bestof)) gitDiff =
         Inr (JObject
           [(''model'', JString (Name model)),
            (''messages'', JArray
               [JObject [(''role'', JString ''system''), (''content'', JString CHAT_PROMPT_INSTRUCTIONS)],
                JObject [(''role'', JString ''user''), (''content'', JString gitDiff)]]),
            (''temperature'', JNumber t),
            (''max_tokens'', JNumber (of_int maxtokens)),
            (''top_p'', JNumber p),
            (''frequency_penalty'', JNumber f),
            (''presence_penalty'', JNumber pr)])"
  using assms
  by (simp add: createRequestBody_def configureParams_def marshal_ChatBody_def marshal_Message_def Let_def)

lemma createRequestBody_legacy:
  assumes "\<not> Chat model"
  shows "createRequestBody model
           (fst (configureParams model maxtokens (Finite t) (Finite p) (Finite f) (Finite pr) bestof))
           chatParams gitDiff =
         Inr (JObject
           [(''model'', JString (Name model)),
            (''prompt'', JString (PROMPT_PREFIX @ [CHR 0x0A] @ gitDiff @ [CHR 0x0A])),
            (''temperature'', JNumber t),
            (''max_tokens'', JNumber (of_int maxtokens)),
            (''top_p'', JNumber p),
            (''frequency_penalty'', JNumber f),
            (''presence_penalty'', JNumber pr),
            (''best_of'', JNumber (of_int bestof))])"
  using assms
  by (simp add: createRequestBody_def configureParams_def marshal_Body_def Let_def)

lemma Models_davinci: "Models ''davinci'' = Some Davinci"
  by (simp add: Models_def)

lemma Models_turbo: "Models ''turbo'' = Some Turbo"
  by (simp add: Models_def)

lemma CheckFormat_sample:
  "CheckFormat (fst (configureParams model 500 (Finite 0.5) (Finite 1) (Finite 0) (Finite 0) 1)) True = None"
  by (simp add: CheckFormat_def configureParams_def Let_def bounds_defs fgt_def)

lemma CheckFormat_validate_without_NaN:
  assumes "Temperature body \<noteq> NaN" "Top_P body \<noteq> NaN"
    and "Presence_Pen body \<noteq> NaN" "Frequence_Pen body \<noteq> NaN"
  shows "CheckFormat body model = validate body model"
  using assms
  by (simp add: CheckFormat_def validate_def bounds_defs
      out_of_bounds_Finite [unfolded out_of_bounds_def])

lemma CheckFormat_unknown_model:
  "CheckFormat body False = Some ErrWrongModel
   \<and> (Models rawModel = None \<longrightarrow>
        RequestImprovements w key gitDiff rawModel maxtokens temperature top_p frequence presence bestof =
          (Returned [] (Some ErrWrongModel), []))"
proof (intro conjI impI)
  show "CheckFormat body False = Some ErrWrongModel"
    by (simp add: CheckFormat_def)
next
  assume "Models rawModel = None"
  then have "CheckFormat (fst (configureParams model' maxtokens temperature top_p frequence presence bestof))
               (Models rawModel \<noteq> None) = Some ErrWrongModel" for model'
    by (simp add: CheckFormat_def)
  then show "RequestImprovements w key gitDiff rawModel maxtokens temperature top_p frequence presence bestof =
          (Returned [] (Some ErrWrongModel), [])"
    by (rule RequestImprovements_rejected)
qed

lemma quote_bytes_plain:
  "list_all (\<lambda>c. 0x20 \<le> (of_char c :: nat) \<and> (of_char c :: nat) < 0x7F \<and> c \<noteq> CHR 0x22 \<and> c \<noteq> CHR 0x5C) s
     \<Longrightarrow> quote_bytes s = Some s"
  by (induction s) (simp_all add: quote_byte_def Let_def)

lemma Quote_promptPrefix: "Quote promptPrefix = Some ([CHR 0x22] @ promptPrefix @ [CHR 0x22])"
proof -
  have "list_all (\<lambda>c. 0x20 \<le> (of_char c :: nat) \<and> (of_char c :: nat) < 0x7F \<and> c \<noteq> CHR 0x22 \<and> c \<noteq> CHR 0x5C)
          promptPrefix"
    unfolding promptPrefix_def by simp
  then show ?thesis
    by (simp add: Quote_def quote_bytes_plain)
qed

lemma Quote_longer: "Quote s = Some q \<Longrightarrow> q \<noteq> s"
proof -
  have len: "quote_bytes s = Some r \<Longrightarrow> length s \<le> length r" for r
  proof (induction s arbitrary: r)
    case Nil
    then show ?case by simp
  next
    case (Cons c s)
    then obtain e r' where e: "quote_byte c = Some e" and r': "quote_bytes s = Some r'" and r: "r = e @ r'"
      by (auto split: option.splits)
    have "1 \<le> length e"
      using e by (auto simp: quote_byte_def Let_def split: if_splits)
    with Cons.IH [OF r'] r show ?case by simp
  qed
  assume "Quote s = Some q"
  then obtain r where "quote_bytes s = Some r" and "q = [CHR 0x22] @ r @ [CHR 0x22]"
    by (auto simp: Quote_def split: option.splits)
  with len [of r] have "length s < length q" by simp
  then show ?thesis by auto
qed

lemma createRequestBody_legacy_prompt:
  assumes "\<not> Chat model"
  shows "createRequestBody model params chatParams gitDiff =
           marshal_Body (params\<lparr>Prompt := PROMPT_PREFIX @ [CHR 0x0A] @ gitDiff @ [CHR 0x0A]\<rparr>)
         \<and> sent_prompt (createRequestBody model
              (fst (configureParams model maxtokens (Finite t) (Finite p) (Finite f) (Finite pr) bestof))
              chatParams gitDiff) =
             Some (JString (PROMPT_PREFIX @ [CHR 0x0A] @ gitDiff @ [CHR 0x0A]))"
proof -
  have "createRequestBody model params chatParams gitDiff =
          marshal_Body (params\<lparr>Prompt := PROMPT_PREFIX @ [CHR 0x0A] @ gitDiff @ [CHR 0x0A]\<rparr>)"
    using assms by (simp add: createRequestBody_def)
  moreover have "sent_prompt (createRequestBody model
              (fst (configureParams model maxtokens (Finite t) (Finite p) (Finite f) (Finite pr) bestof))
              chatParams gitDiff) =
             Some (JString (PROMPT_PREFIX @ [CHR 0x0A] @ gitDiff @ [CHR 0x0A]))"
    by (simp add: createRequestBody_legacy [OF assms])
  ultimately show ?thesis by simp
qed

subsection \<open>The parameter validator\<close>

text \<open>
  C1, at the input where the code leaves the claim. With a temperature that is NaN and a
  topP of 7 both parameters are outside [0, 1], and the first-listed error is the one of
  the temperature. Both comparisons of the temperature check are false for NaN, so
  CheckFormat goes on to the topP check and returns its error; so does
  RequestImprovements.
\<close>

theorem CheckFormat_NaN_skips_first_listed:
  "\<not> in_interval 0 1 NaN \<and> \<not> in_interval 0 1 (Finite 7)
   \<and> validate (fst (configureParams Turbo 500 NaN (Finite 7) (Finite 0) (Finite 0) 1)) True =
       Some ErrWrongTempRange
   \<and> CheckFormat (fst (configureParams Turbo 500 NaN (Finite 7) (Finite 0) (Finite 0) 1)) True =
       Some ErrWrongToppRange
   \<and> RequestImprovements w key gitDiff ''turbo'' 500 NaN (Finite 7) (Finite 0) (Finite 0) 1 =
       (Returned [] (Some ErrWrongToppRange), [])"
proof -
  have found: "(Models ''turbo'' \<noteq> None) = True"
    by (simp add: Models_turbo)
  have code: "CheckFormat (fst (configureParams Turbo 500 NaN (Finite 7) (Finite 0) (Finite 0) 1)) True =
       Some ErrWrongToppRange"
    by (simp add: CheckFormat_def configureParams_def Let_def bounds_defs fgt_def)
  have spec: "validate (fst (configureParams Turbo 500 NaN (Finite 7) (Finite 0) (Finite 0) 1)) True =
       Some ErrWrongTempRange"
    by (simp add: validate_def configureParams_def Let_def)
  have "RequestImprovements w key gitDiff ''turbo'' 500 NaN (Finite 7) (Finite 0) (Finite 0) 1 =
       (Returned [] (Some ErrWrongToppRange), [])"
    using code by (intro RequestImprovements_rejected [where model = Turbo]) (simp only: found)
  with code spec show ?thesis by simp
qed

text \<open>
  C2, at the input where the code leaves the claim. A temperature that is NaN is not in
  [0, 1], yet both comparisons of the temperature check are false for it: CheckFormat
  accepts the parameters, and the call goes on to the encoder, whose error is what the
  caller gets instead of ErrWrongTempRange.
\<close>

theorem CheckFormat_accepts_NaN:
  "\<not> in_interval 0 1 NaN
   \<and> CheckFormat (fst (configureParams Turbo 500 NaN (Finite 1) (Finite 0) (Finite 0) 1)) True = None
   \<and> RequestImprovements w key gitDiff ''turbo'' 500 NaN (Finite 1) (Finite 0) (Finite 0) 1 =
       (Returned [] (Some (UnsupportedValueError ''NaN'')), [])"
proof -
  have ok: "CheckFormat (fst (configureParams Turbo 500 NaN (Finite 1) (Finite 0) (Finite 0) 1)) True = None"
    by (simp add: CheckFormat_def configureParams_def Let_def bounds_defs fgt_def)
  have body: "createRequestBody Turbo
      (fst (configureParams Turbo 500 NaN (Finite 1) (Finite 0) (Finite 0) 1))
      (snd (configureParams Turbo 500 NaN (Finite 1) (Finite 0) (Finite 0) 1)) gitDiff =
      Inl (UnsupportedValueError ''NaN'')"
    by (simp add: createRequestBody_def configureParams_def marshal_ChatBody_def Let_def Turbo_def)
  show ?thesis
    using ok RequestImprovements_unencodable [OF Models_turbo ok body] by simp
qed

subsection \<open>Reading the response\<close>

text \<open>
  C3. When the decoded response carries no error, the returned comments are built from the
  choices in response order: for a chat model every choice's message content, empty or
  not; for a legacy model the choice texts of nonzero length. A legacy response with the
  texts "", "improve X", "" gives exactly "improve X", and a chat response with the one
  content "looks fine" gives exactly "looks fine".
\<close>

theorem RequestImprovements_comments:
  assumes "Models rawModel = Some model"
    and "CheckFormat (fst (configureParams model maxtokens temperature top_p frequence presence bestof)) True = None"
    and "createRequestBody model
           (fst (configureParams model maxtokens temperature top_p frequence presence bestof))
           (snd (configureParams model maxtokens temperature top_p frequence presence bestof)) gitDiff = Inr reqBody"
    and "client_Do w (new_request key model reqBody) = Inr body"
    and "json_Unmarshal w body = Inr apiReq"
    and "Err apiReq = None"
  shows "fst (RequestImprovements w key gitDiff rawModel maxtokens temperature top_p frequence presence bestof) =
           Returned (if Chat model then map (\<lambda>c. Content (Message c)) (Choices apiReq)
                     else filter (\<lambda>t. length t \<noteq> 0) (map Text (Choices apiReq))) None
         \<and> (\<not> Chat model \<and> map Text (Choices apiReq) = [[], ''improve X'', []] \<longrightarrow>
              fst (RequestImprovements w key gitDiff rawModel maxtokens temperature top_p frequence presence bestof) =
                Returned [''improve X''] None)
         \<and> (Chat model \<and> map (\<lambda>c. Content (Message c)) (Choices apiReq) = [''looks fine''] \<longrightarrow>
              fst (RequestImprovements w key gitDiff rawModel maxtokens temperature top_p frequence presence bestof) =
                Returned [''looks fine''] None)"
proof -
  have "fst (RequestImprovements w key gitDiff rawModel maxtokens temperature top_p frequence presence bestof) =
          Returned (append_choices (Chat model) (Choices apiReq) []) None"
    using RequestImprovements_round_trip [OF assms(1-3)] assms(4-6) by simp
  then show ?thesis
    by (simp add: append_choices_eq)
qed

theorem RequestImprovements_comments_witness:
  "fst (RequestImprovements (stub_world (Inr ''{}'') (Inr legacy_response)) ''sk-1'' ''+x'' ''davinci'' 500
          (Finite 0.5) (Finite 1) (Finite 0) (Finite 0) 1) = Returned [''improve X''] None
   \<and> fst (RequestImprovements (stub_world (Inr ''{}'') (Inr chat_response)) ''sk-1'' ''+x'' ''turbo'' 500
          (Finite 0.5) (Finite 1) (Finite 0) (Finite 0) 1) = Returned [''looks fine''] None"
proof -
  have legacy: "\<not> Chat Davinci" and chat: "Chat Turbo"
    by (simp_all add: Davinci_def Turbo_def)
  have do: "client_Do (stub_world (Inr ''{}'') r) q = Inr ''{}''" for r q
    by (simp add: stub_world_def stub_Do_def)
  have dec: "json_Unmarshal (stub_world (Inr ''{}'') (Inr r)) ''{}'' = Inr r" for r
    by (simp add: stub_world_def stub_Unmarshal_def)
  have e1: "Err legacy_response = None" and e2: "Err chat_response = None"
    by (simp_all add: legacy_response_def chat_response_def response_def)
  have t1: "map Text (Choices legacy_response) = [[], ''improve X'', []]"
    by (simp add: legacy_response_def response_def text_choice_def)
  have t2: "map (\<lambda>c. Content (Message c)) (Choices chat_response) = [''looks fine'']"
    by (simp add: chat_response_def response_def chat_choice_def)
  note a = RequestImprovements_comments
    [OF Models_davinci CheckFormat_sample createRequestBody_legacy [OF legacy] do dec e1]
  note b = RequestImprovements_comments
    [OF Models_turbo CheckFormat_sample createRequestBody_chat [OF chat] do dec e2]
  from a legacy t1 b chat t2 show ?thesis
    by simp
qed

text \<open>
  C4. Whenever the decoded response has its error field set, the call returns an error
  whose text is exactly the embedded message, and an empty comment list, whatever choices
  the response also holds.
\<close>

theorem RequestImprovements_upstream_error:
  assumes "Models rawModel = Some model"
    and "CheckFormat (fst (configureParams model maxtokens temperature top_p frequence presence bestof)) True = None"
    and "createRequestBody model
           (fst (configureParams model maxtokens temperature top_p frequence presence bestof))
           (snd (configureParams model maxtokens temperature top_p frequence presence bestof)) gitDiff = Inr reqBody"
    and "client_Do w (new_request key model reqBody) = Inr body"
    and "json_Unmarshal w body = Inr apiReq"
    and "Err apiReq = Some e"
  shows "fst (RequestImprovements w key gitDiff rawModel maxtokens temperature top_p frequence presence bestof) =
           Returned [] (Some (ErrorsNew (ErrMessage e)))
         \<and> Error (ErrorsNew (ErrMessage e)) = ErrMessage e"
  using RequestImprovements_round_trip [OF assms(1-3)] assms(4-6) by simp

theorem RequestImprovements_upstream_error_witness:
  "Choices error_response \<noteq> []
   \<and> fst (RequestImprovements (stub_world (Inr ''{}'') (Inr error_response)) ''sk-1'' ''+x'' ''davinci'' 500
          (Finite 0.5) (Finite 1) (Finite 0) (Finite 0) 1) =
       Returned [] (Some (ErrorsNew ''invalid api key''))"
proof -
  have legacy: "\<not> Chat Davinci"
    by (simp add: Davinci_def)
  have do: "client_Do (stub_world (Inr ''{}'') r) q = Inr ''{}''" for r q
    by (simp add: stub_world_def stub_Do_def)
  have dec: "json_Unmarshal (stub_world (Inr ''{}'') (Inr r)) ''{}'' = Inr r" for r
    by (simp add: stub_world_def stub_Unmarshal_def)
  have e: "Err error_response = Some invalid_key"
    by (simp add: error_response_def response_def)
  have m: "ErrMessage invalid_key = ''invalid api key''"
    by (simp add: invalid_key_def)
  have c: "Choices error_response \<noteq> []"
    by (simp add: error_response_def response_def)
  from RequestImprovements_upstream_error
    [OF Models_davinci CheckFormat_sample createRequestBody_legacy [OF legacy] do dec e] m c
  show ?thesis by simp
qed

text \<open>
  C5, as the code has it. When the response body cannot be decoded, the call does not
  return: it panics with the decoder's message, after one request was sent. No error value
  and no comments reach the caller.
\<close>

theorem RequestImprovements_decode_failure:
  assumes "Models rawModel = Some model"
    and "CheckFormat (fst (configureParams model maxtokens temperature top_p frequence presence bestof)) True = None"
    and "createRequestBody model
           (fst (configureParams model maxtokens temperature top_p frequence presence bestof))
           (snd (configureParams model maxtokens temperature top_p frequence presence bestof)) gitDiff = Inr reqBody"
    and "client_Do w (new_request key model reqBody) = Inr body"
    and "json_Unmarshal w body = Inl msg"
  shows "RequestImprovements w key gitDiff rawModel maxtokens temperature top_p frequence presence bestof =
           (Panicked msg, [new_request key model reqBody])
         \<and> \<not> returns_error
               (fst (RequestImprovements w key gitDiff rawModel maxtokens temperature top_p frequence presence bestof))"
  using RequestImprovements_round_trip [OF assms(1-3)] assms(4-5) by simp

theorem RequestImprovements_decode_failure_witness:
  "fst (RequestImprovements (stub_world (Inr ''<html>'') (Inl ''invalid character'')) ''sk-1'' ''+x''
          ''davinci'' 500 (Finite 0.5) (Finite 1) (Finite 0) (Finite 0) 1) = Panicked ''invalid character''"
proof -
  have legacy: "\<not> Chat Davinci"
    by (simp add: Davinci_def)
  have do: "client_Do (stub_world (Inr ''<html>'') r) q = Inr ''<html>''" for r q
    by (simp add: stub_world_def stub_Do_def)
  have dec: "json_Unmarshal (stub_world r (Inl ''invalid character'')) ''<html>'' = Inl ''invalid character''" for r
    by (simp add: stub_world_def stub_Unmarshal_def)
  from RequestImprovements_decode_failure
    [OF Models_davinci CheckFormat_sample createRequestBody_legacy [OF legacy] do dec]
  show ?thesis by simp
qed

text \<open>
  C5 as stated fails: with a body that does not decode, no error is returned to the caller.
\<close>

theorem decode_error_not_returned:
  "\<not> returns_error
       (fst (RequestImprovements (stub_world (Inr ''<html>'') (Inl ''invalid character'')) ''sk-1'' ''+x''
               ''turbo'' 500 (Finite 0.5) (Finite 1) (Finite 0) (Finite 0) 1))"
proof -
  have chat: "Chat Turbo"
    by (simp add: Turbo_def)
  have "RequestImprovements (stub_world (Inr ''<html>'') (Inl ''invalid character'')) ''sk-1'' ''+x''
          ''turbo'' 500 (Finite 0.5) (Finite 1) (Finite 0) (Finite 0) 1 =
        (Panicked ''invalid character'',
         [new_request ''sk-1'' Turbo (JObject
           [(''model'', JString (Name Turbo)),
            (''messages'', JArray
               [JObject [(''role'', JString ''system''), (''content'', JString CHAT_PROMPT_INSTRUCTIONS)],
                JObject [(''role'', JString ''user''), (''content'', JString ''+x'')]]),
            (''temperature'', JNumber 0.5),
            (''max_tokens'', JNumber (of_int 500)),
            (''top_p'', JNumber 1),
            (''frequency_penalty'', JNumber 0),
            (''presence_penalty'', JNumber 0)])])"
    using RequestImprovements_round_trip [OF Models_turbo CheckFormat_sample createRequestBody_chat [OF chat]]
    by (simp add: stub_world_def stub_Do_def stub_Unmarshal_def)
  then show ?thesis by simp
qed

subsection \<open>Building the request\<close>

text \<open>
  C6, at the input where the older copy leaves the claim. For the two-line diff "+a", "-b"
  the copy in request.go sends the template, a line feed, the diff as it is and a line
  feed. The older copy sends the template and the diff as Go string literals: each between
  double quotes, the line feed inside the diff written as a backslash and the letter n.
  The diff text is not part of that prompt.
\<close>

theorem part_000_prompt_quotes_the_diff:
  "sent_prompt_part_000 (requestBody_part_000 Davinci
     (fst (configureParams Davinci 500 (Finite 0.5) (Finite 1) (Finite 0) (Finite 0) 1))
     (snd (configureParams Davinci 500 (Finite 0.5) (Finite 1) (Finite 0) (Finite 0) 1))
     (''+a'' @ [CHR 0x0A] @ ''-b'')) =
   Some (JString ([CHR 0x22] @ promptPrefix @ [CHR 0x22, CHR 0x0A]
                  @ [CHR 0x22] @ ''+a'' @ [CHR 0x5C] @ ''n-b'' @ [CHR 0x22, CHR 0x0A]))
   \<and> \<not> sublist (''+a'' @ [CHR 0x0A] @ ''-b'')
         ([CHR 0x22] @ promptPrefix @ [CHR 0x22, CHR 0x0A]
          @ [CHR 0x22] @ ''+a'' @ [CHR 0x5C] @ ''n-b'' @ [CHR 0x22, CHR 0x0A])
   \<and> sent_prompt (createRequestBody Davinci
     (fst (configureParams Davinci 500 (Finite 0.5) (Finite 1) (Finite 0) (Finite 0) 1))
     (snd (configureParams Davinci 500 (Finite 0.5) (Finite 1) (Finite 0) (Finite 0) 1))
     (''+a'' @ [CHR 0x0A] @ ''-b'')) =
   Some (JString (PROMPT_PREFIX @ [CHR 0x0A] @ (''+a'' @ [CHR 0x0A] @ ''-b'') @ [CHR 0x0A]))"
proof -
  have legacy: "\<not> Chat Davinci"
    by (simp add: Davinci_def)
  have diff: "Quote (''+a'' @ [CHR 0x0A] @ ''-b'') =
                Some ([CHR 0x22] @ ''+a'' @ [CHR 0x5C] @ ''n-b'' @ [CHR 0x22])"
    by (simp add: Quote_def quote_byte_def Let_def)
  have old: "sent_prompt_part_000 (requestBody_part_000 Davinci
     (fst (configureParams Davinci 500 (Finite 0.5) (Finite 1) (Finite 0) (Finite 0) 1))
     (snd (configureParams Davinci 500 (Finite 0.5) (Finite 1) (Finite 0) (Finite 0) 1))
     (''+a'' @ [CHR 0x0A] @ ''-b'')) =
   Some (JString ([CHR 0x22] @ promptPrefix @ [CHR 0x22, CHR 0x0A]
                  @ [CHR 0x22] @ ''+a'' @ [CHR 0x5C] @ ''n-b'' @ [CHR 0x22, CHR 0x0A]))"
    using legacy diff
    by (simp add: requestBody_part_000_def Quote_promptPrefix configureParams_def marshal_Body_def Let_def)
  have absent: "\<not> sublist (''+a'' @ [CHR 0x0A] @ ''-b'')
         ([CHR 0x22] @ promptPrefix @ [CHR 0x22, CHR 0x0A]
          @ [CHR 0x22] @ ''+a'' @ [CHR 0x5C] @ ''n-b'' @ [CHR 0x22, CHR 0x0A])"
    unfolding promptPrefix_def by (simp add: sublist_Cons_right)
  have new: "sent_prompt (createRequestBody Davinci
     (fst (configureParams Davinci 500 (Finite 0.5) (Finite 1) (Finite 0) (Finite 0) 1))
     (snd (configureParams Davinci 500 (Finite 0.5) (Finite 1) (Finite 0) (Finite 0) 1))
     (''+a'' @ [CHR 0x0A] @ ''-b'')) =
   Some (JString (PROMPT_PREFIX @ [CHR 0x0A] @ (''+a'' @ [CHR 0x0A] @ ''-b'') @ [CHR 0x0A]))"
    by (simp add: createRequestBody_legacy [OF legacy])
  from old absent new show ?thesis by (intro conjI)
qed

text \<open>
  C7. For every chat model and every diff text, the chat request that is encoded holds
  exactly two messages: a system message whose content is the constant
  CHAT_PROMPT_INSTRUCTIONS, then a user message whose content is the diff text. When the
  four floats can be encoded, the encoded request holds the two messages in that order,
  and decoding it gives the roles system, user in that order.
\<close>

theorem createRequestBody_chat_messages:
  assumes "Chat model"
  shows "createRequestBody model params chatParams gitDiff =
           marshal_ChatBody (chatParams\<lparr>Messages :=
             Some [\<lparr>Role = ''system'', Content = CHAT_PROMPT_INSTRUCTIONS\<rparr>,
                   \<lparr>Role = ''user'', Content = gitDiff\<rparr>]\<rparr>)
         \<and> (\<exists>j. createRequestBody model params
                   (snd (configureParams model maxtokens (Finite t) (Finite p) (Finite f) (Finite pr) bestof))
                   gitDiff = Inr j
                \<and> member j ''messages'' = Some (JArray
                    [marshal_Message \<lparr>Role = ''system'', Content = CHAT_PROMPT_INSTRUCTIONS\<rparr>,
                     marshal_Message \<lparr>Role = ''user'', Content = gitDiff\<rparr>])
                \<and> roles (unmarshal_Messages j) = Some [''system'', ''user''])"
proof -
  have "createRequestBody model params chatParams gitDiff =
           marshal_ChatBody (chatParams\<lparr>Messages :=
             Some [\<lparr>Role = ''system'', Content = CHAT_PROMPT_INSTRUCTIONS\<rparr>,
                   \<lparr>Role = ''user'', Content = gitDiff\<rparr>]\<rparr>)"
    using assms by (simp add: createRequestBody_def)
  then show ?thesis
    by (simp add: createRequestBody_chat [OF assms] marshal_Message_def)
qed

theorem createRequestBody_chat_messages_witness:
  "\<exists>j. createRequestBody Turbo
          (fst (configureParams Turbo 500 (Finite 0.5) (Finite 1) (Finite 0) (Finite 0) 1))
          (snd (configureParams Turbo 500 (Finite 0.5) (Finite 1) (Finite 0) (Finite 0) 1)) ''+x'' = Inr j
      \<and> roles (unmarshal_Messages j) = Some [''system'', ''user'']"
proof -
  have chat: "Chat Turbo"
    by (simp add: Turbo_def)
  from createRequestBody_chat_messages [OF chat, of _ _ "''+x''" 500 "0.5" 1 0 0 1]
  show ?thesis by blast
qed

text \<open>
  C9. For every chat model, the encoded chat request has exactly the members model,
  messages, temperature, max_tokens, top_p, frequency_penalty, presence_penalty, in that
  order, each message having exactly the members role and content; there is no prompt and
  no best_of member. The caller's bestOf does not reach the encoded request: any two values
  of it give the same result of createRequestBody. The validator does not look at the API
  family: its verdict is the same for any two models.
\<close>

theorem createRequestBody_chat_keys:
  assumes "Chat model"
  shows "(\<exists>j ms. createRequestBody model
                   (fst (configureParams model maxtokens (Finite t) (Finite p) (Finite f) (Finite pr) bestof))
                   (snd (configureParams model maxtokens (Finite t) (Finite p) (Finite f) (Finite pr) bestof))
                   gitDiff = Inr j
              \<and> keys j = [''model'', ''messages'', ''temperature'', ''max_tokens'', ''top_p'',
                           ''frequency_penalty'', ''presence_penalty'']
              \<and> ''prompt'' \<notin> set (keys j) \<and> ''best_of'' \<notin> set (keys j)
              \<and> member j ''messages'' = Some (JArray ms)
              \<and> map keys ms = [[''role'', ''content''], [''role'', ''content'']])
         \<and> createRequestBody model
              (fst (configureParams model maxtokens temperature top_p frequence presence bestof))
              (snd (configureParams model maxtokens temperature top_p frequence presence bestof)) gitDiff =
            createRequestBody model
              (fst (configureParams model maxtokens temperature top_p frequence presence bestof'))
              (snd (configureParams model maxtokens temperature top_p frequence presence bestof')) gitDiff
         \<and> CheckFormat (fst (configureParams model maxtokens temperature top_p frequence presence bestof)) h =
            CheckFormat (fst (configureParams model' maxtokens temperature top_p frequence presence bestof)) h"
proof -
  have "createRequestBody model
              (fst (configureParams model maxtokens temperature top_p frequence presence bestof))
              (snd (configureParams model maxtokens temperature top_p frequence presence bestof)) gitDiff =
            createRequestBody model
              (fst (configureParams model maxtokens temperature top_p frequence presence bestof'))
              (snd (configureParams model maxtokens temperature top_p frequence presence bestof')) gitDiff"
    using assms by (simp add: createRequestBody_def configureParams_def Let_def)
  moreover note CheckFormat_ignores_model_name [of model maxtokens temperature top_p frequence presence bestof h model']
  ultimately show ?thesis
    by (simp add: createRequestBody_chat [OF assms])
qed

theorem createRequestBody_chat_keys_witness:
  "\<exists>j. createRequestBody Turbo
          (fst (configureParams Turbo 500 (Finite 0.5) (Finite 1) (Finite 0) (Finite 0) 7))
          (snd (configureParams Turbo 500 (Finite 0.5) (Finite 1) (Finite 0) (Finite 0) 7)) ''+x'' = Inr j
      \<and> keys j = [''model'', ''messages'', ''temperature'', ''max_tokens'', ''top_p'',
                   ''frequency_penalty'', ''presence_penalty'']"
proof -
  have chat: "Chat Turbo"
    by (simp add: Turbo_def)
  from createRequestBody_chat_keys [OF chat, of 500 "0.5" 1 0 0 7 "''+x''"]
  show ?thesis by blast
qed

subsection \<open>Failures of the whole call\<close>

text \<open>
  C8. RequestImprovements never returns comments together with an error: whenever it
  returns an error, the comment list it returns is empty. Every error of the validator
  (there are six: wrong model, temperature, topP, presence penalty, frequency penalty,
  bestOf) is returned as it is, with no request sent.
\<close>

theorem RequestImprovements_no_partial_success:
  "(fst (RequestImprovements w key gitDiff rawModel maxtokens temperature top_p frequence presence bestof) =
      Returned answers (Some err) \<longrightarrow> answers = [])
   \<and> (CheckFormat (fst (configureParams model maxtokens temperature top_p frequence presence bestof))
         (Models rawModel \<noteq> None) = Some err' \<longrightarrow>
       err' \<in> {ErrWrongModel, ErrWrongTempRange, ErrWrongToppRange, ErrWrongPresenceRange,
                ErrWrongFrequenceRange, ErrWrongBestOfRange}
       \<and> RequestImprovements w key gitDiff rawModel maxtokens temperature top_p frequence presence bestof =
           (Returned [] (Some err'), []))"
proof -
  have "answers = []"
    if "fst (RequestImprovements w key gitDiff rawModel maxtokens temperature top_p frequence presence bestof) =
          Returned answers (Some err)"
    using that
    by (auto simp: RequestImprovements_def Let_def case_prod_beta split: option.splits sum.splits)
  moreover have "err' \<in> {ErrWrongModel, ErrWrongTempRange, ErrWrongToppRange, ErrWrongPresenceRange,
                ErrWrongFrequenceRange, ErrWrongBestOfRange}"
    if "CheckFormat (fst (configureParams model maxtokens temperature top_p frequence presence bestof))
         (Models rawModel \<noteq> None) = Some err'"
    using that CheckFormat_range
      [of "fst (configureParams model maxtokens temperature top_p frequence presence bestof)"
          "Models rawModel \<noteq> None"]
    by auto
  ultimately show ?thesis
    using RequestImprovements_rejected by blast
qed

theorem RequestImprovements_no_partial_success_witness:
  "RequestImprovements (stub_world (Inr ''{}'') (Inr legacy_response)) ''sk-1'' ''+x'' ''davinci'' 500
     (Finite 5) (Finite 1) (Finite 0) (Finite 0) 1 = (Returned [] (Some ErrWrongTempRange), [])"
proof -
  have found: "(Models ''davinci'' \<noteq> None) = True"
    by (simp add: Models_davinci)
  have bad: "CheckFormat (fst (configureParams Davinci 500 (Finite 5) (Finite 1) (Finite 0) (Finite 0) 1))
               (Models ''davinci'' \<noteq> None) = Some ErrWrongTempRange"
    unfolding found
    by (simp add: CheckFormat_def configureParams_def Let_def bounds_defs fgt_def)
  from RequestImprovements_no_partial_success
    [of "stub_world (Inr ''{}'') (Inr legacy_response)" "''sk-1''" "''+x''" "''davinci''" 500
        "Finite 5" "Finite 1" "Finite 0" "Finite 0" 1 "[]" ErrWrongTempRange Davinci ErrWrongTempRange] bad
  show ?thesis by simp
qed

text \<open>
  C10. For a chat model too the validator checks bestOf: when the alias resolves to a chat
  model, the four float checks pass and bestOf is below 1 or above 20, the call returns
  ErrWrongBestOfRange with no comments and no request sent, whatever the diff, the key and
  the transport are.
\<close>

theorem RequestImprovements_chat_bestof:
  assumes "Models rawModel = Some model" and "Chat model"
    and "\<not> out_of_bounds TempRangeMin TempRangeMax temperature"
    and "\<not> out_of_bounds TopPMin TopPMax top_p"
    and "\<not> out_of_bounds PresenceMin PresenceMax presence"
    and "\<not> out_of_bounds FrequenceMin FrequenceMax frequence"
    and "bestof < 1 \<or> 20 < bestof"
  shows "RequestImprovements w key gitDiff rawModel maxtokens temperature top_p frequence presence bestof =
           (Returned [] (Some ErrWrongBestOfRange), [])"
proof -
  have "CheckFormat (fst (configureParams model maxtokens temperature top_p frequence presence bestof))
          (Models rawModel \<noteq> None) = Some ErrWrongBestOfRange"
    using assms
    by (simp add: CheckFormat_def configureParams_def Let_def out_of_bounds_def BestOfMin_def BestOfMax_def)
  then show ?thesis
    by (rule RequestImprovements_rejected)
qed

theorem RequestImprovements_chat_bestof_witness:
  "RequestImprovements (stub_world (Inr ''{}'') (Inr chat_response)) ''sk-1'' ''+x'' ''turbo'' 500
     (Finite 0.5) (Finite 1) (Finite 0) (Finite 0) 0 = (Returned [] (Some ErrWrongBestOfRange), [])
   \<and> RequestImprovements (stub_world (Inr ''{}'') (Inr chat_response)) ''sk-1'' ''+x'' ''gpt4'' 500
     NaN (Finite 1) (Finite 0) (Finite 0) 21 = (Returned [] (Some ErrWrongBestOfRange), [])"
proof -
  have chat: "Chat Turbo" "Chat GPT4"
    by (simp_all add: Turbo_def GPT4_def)
  have gpt4: "Models ''gpt4'' = Some GPT4"
    by (simp add: Models_def)
  have t: "\<not> out_of_bounds TempRangeMin TempRangeMax (Finite 0.5)"
    "\<not> out_of_bounds TempRangeMin TempRangeMax NaN"
    and p: "\<not> out_of_bounds TopPMin TopPMax (Finite 1)"
    and pr: "\<not> out_of_bounds PresenceMin PresenceMax (Finite 0)"
    and f: "\<not> out_of_bounds FrequenceMin FrequenceMax (Finite 0)"
    by (simp_all add: out_of_bounds_def fgt_def bounds_defs)
  have b: "(0::int) < 1 \<or> 20 < (0::int)" "(21::int) < 1 \<or> 20 < (21::int)"
    by simp_all
  from RequestImprovements_chat_bestof [OF Models_turbo chat(1) t(1) p pr f b(1)]
    RequestImprovements_chat_bestof [OF gpt4 chat(2) t(2) p pr f b(2)]
  show ?thesis by simp
qed

end
